theory Spec2Isabelle
  imports Main
begin

section \<open>The SSF client of \<^verbatim>\<open>src/core/client/client.ipp\<close>\<close>

text \<open>
  The client owns an asynchronous engine, a network socket, a fiber demultiplexer and
  an optional application callback. Each member function of \<^verbatim>\<open>SSFClient\<close> is a
  function on a record of the client's members. Every call the client makes on one of its
  collaborators (socket, resolver, engine, demultiplexer, factories) is written to a
  trace in call order, so that the order of the effects can be stated. Results that
  come from outside the file (the resolver's answer, the completion codes of connect and
  handshake, the outcome of starting the Admin service, the factory found for the
  demultiplexer) are arguments of the functions. Log output (\<^verbatim>\<open>SSF_LOG\<close>) is not modelled.
\<close>

subsection \<open>Error codes\<close>

text \<open>
  A \<^verbatim>\<open>boost::system::error_code\<close> is a value and a category. The test \<^verbatim>\<open>if (ec)\<close>
  holds when the value is not zero. The value \<^verbatim>\<open>::error::device_or_resource_busy\<close> is an
  enumerator of \<^verbatim>\<open>common/error/error.h\<close>; it is kept symbolic, as an enumerator distinct
  from zero.
\<close>

datatype error_value = no_error | device_or_resource_busy | other_error nat

datatype error_category = system_category | ssf_category

record error_code =
  ec_value :: error_value
  ec_category :: error_category

text \<open>The default constructed \<^verbatim>\<open>boost::system::error_code()\<close>.\<close>

definition error_code_default :: error_code where
  "error_code_default = \<lparr>ec_value = no_error, ec_category = system_category\<rparr>"

text \<open>\<^verbatim>\<open>if (ec)\<close>: the code reports a failure.\<close>

definition failed :: "error_code \<Rightarrow> bool" where
  "failed ec = (ec_value ec \<noteq> no_error)"

subsection \<open>Data\<close>

text \<open>The notification kinds of \<^verbatim>\<open>ssf::services::initialisation\<close> the client uses.\<close>

datatype initialisation_type = NETWORK | TRANSPORT | CLOSE

text \<open>
  The application callback is a \<^verbatim>\<open>std::function\<close>: \<open>None\<close> is the empty function,
  for which \<^verbatim>\<open>if (callback_)\<close> is false. A user service pointer may be null, as may the
  shared pointer to the network socket.
\<close>

datatype ClientCallback = ClientCallback nat

type_synonym BaseUserServicePtr = "nat option"

datatype NetworkSocket = NetworkSocket

type_synonym NetworkSocketPtr = "NetworkSocket option"

type_synonym NetworkQuery = "(string \<times> string) list"

type_synonym endpoint = nat

text \<open>
  The handler \<^verbatim>\<open>boost::bind(callback_, type, p_user_service, ec)\<close> that \<^verbatim>\<open>Notify\<close>
  hands to the io service.
\<close>

datatype handler =
  BoundCallback ClientCallback initialisation_type BaseUserServicePtr error_code

text \<open>The admin commands, micro services and configuration sections named in \<^verbatim>\<open>DoFiberize\<close>.\<close>

datatype admin_command = CreateServiceRequest | StopServiceRequest | ServiceStatus

datatype micro_service =
  SocksServer | FibersToSockets | SocketsToFibers | FibersToDatagrams
  | DatagramsToFibers | FileToFiber | FiberToFile | FileEnquirer | ProcessServer

datatype config_section =
  socks | stream_forwarder | stream_listener | datagram_forwarder
  | datagram_listener | file_copy | process

text \<open>A service instance tracked by a service manager: the Admin service or a micro service.\<close>

datatype service_instance = Admin | Instance micro_service nat

text \<open>
  The service factory found for a demultiplexer, with the instances its service manager
  tracks.
\<close>

record ServiceFactory =
  running :: "service_instance list"

text \<open>The calls the client makes on its collaborators, and the scheduler's invocations.\<close>

datatype action =
  MakeSocket
  | Resolve NetworkQuery
  | EngineStart
  | EngineStop
  | AsyncConnect endpoint
  | DemuxClose
  | SocketShutdown
  | SocketClose
  | SocketReset
  | SSFInitiate
  | RegisterToCommandFactory admin_command
  | Fiberize
  | MakeServiceManager
  | CreateServiceFactory
  | RegisterToServiceFactory micro_service config_section
  | CreateAdmin
  | AdminSetClient
  | ServiceManagerStart service_instance
  | GetServiceFactory
  | FactoryDestroy
  | ServiceStop service_instance
  | Post handler
  | Invoke handler

record SSFClient =
  engine_started :: bool
  io_queue :: "handler list"
  client_p_socket :: NetworkSocketPtr
  client_user_services :: "nat list"
  client_callback :: "ClientCallback option"
  trace :: "action list"

text \<open>
  The members \<^verbatim>\<open>p_socket_\<close>, \<^verbatim>\<open>user_services_\<close> and \<^verbatim>\<open>callback_\<close> are the fields
  \<open>client_p_socket\<close>, \<open>client_user_services\<close> and \<open>client_callback\<close>; the state of
  \<^verbatim>\<open>async_engine_\<close> is \<open>engine_started\<close> and the queue of its io service \<open>io_queue\<close>.
\<close>

text \<open>The constructor: no socket, an engine that is not started, nothing posted.\<close>

definition SSFClient_init :: "nat list \<Rightarrow> ClientCallback option \<Rightarrow> SSFClient" where
  "SSFClient_init user_services callback =
     \<lparr>engine_started = False, io_queue = [], client_p_socket = None,
      client_user_services = user_services, client_callback = callback, trace = []\<rparr>"

definition emit :: "action \<Rightarrow> SSFClient \<Rightarrow> SSFClient" where
  "emit a c = c\<lparr>trace := trace c @ [a]\<rparr>"

subsection \<open>The asynchronous engine and its io service\<close>

text \<open>
  Modelled from the spec: the class \<^verbatim>\<open>AsyncEngine\<close> is declared outside
  \<^verbatim>\<open>client.ipp\<close>. \<^verbatim>\<open>Start\<close> starts the engine and \<^verbatim>\<open>Stop\<close> halts it
  (spec 4.1: stop "halts the async engine"); \<^verbatim>\<open>IsStarted\<close> tells which of the two
  happened last.
\<close>

definition IsStarted :: "SSFClient \<Rightarrow> bool" where
  "IsStarted c = engine_started c"

definition AsyncEngine_Start :: "SSFClient \<Rightarrow> SSFClient" where
  "AsyncEngine_Start c = emit EngineStart (c\<lparr>engine_started := True\<rparr>)"

definition AsyncEngine_Stop :: "SSFClient \<Rightarrow> SSFClient" where
  "AsyncEngine_Stop c = emit EngineStop (c\<lparr>engine_started := False\<rparr>)"

text \<open>
  \<^verbatim>\<open>io_service::post\<close> of Boost.Asio queues a handler and returns without running it;
  a handler runs when the scheduler takes it from the queue.
\<close>

definition io_post :: "handler \<Rightarrow> SSFClient \<Rightarrow> SSFClient" where
  "io_post h c = emit (Post h) (c\<lparr>io_queue := io_queue c @ [h]\<rparr>)"

definition io_poll_one :: "SSFClient \<Rightarrow> SSFClient" where
  "io_poll_one c =
     (case io_queue c of
        [] \<Rightarrow> c
      | h # hs \<Rightarrow> emit (Invoke h) (c\<lparr>io_queue := hs\<rparr>))"

subsection \<open>The member functions\<close>

text \<open>\<^verbatim>\<open>SSFClient::Notify\<close> (lines 189-197).\<close>

definition Notify ::
  "initialisation_type \<Rightarrow> BaseUserServicePtr \<Rightarrow> error_code \<Rightarrow> SSFClient \<Rightarrow> SSFClient" where
  "Notify type p_user_service ec c =
     (case client_callback c of
        None \<Rightarrow> c
      | Some cb \<Rightarrow> io_post (BoundCallback cb type p_user_service ec) c)"

text \<open>
  \<^verbatim>\<open>SSFClient::Run\<close> (lines 45-72). The resolver is an argument; the result is the
  caller's error code and the client.
\<close>

definition Run ::
  "(NetworkQuery \<Rightarrow> error_code \<times> endpoint) \<Rightarrow> NetworkQuery \<Rightarrow> SSFClient
     \<Rightarrow> error_code \<times> SSFClient" where
  "Run resolve query c =
     (if IsStarted c
      then (\<lparr>ec_value = device_or_resource_busy, ec_category = ssf_category\<rparr>, c)
      else
        let c1 = emit MakeSocket (c\<lparr>client_p_socket := Some NetworkSocket\<rparr>);
            c2 = emit (Resolve query) c1;
            ec = fst (resolve query);
            endpoint_it = snd (resolve query)
        in if failed ec
           then (ec, Notify NETWORK None ec c2)
           else (ec, emit (AsyncConnect endpoint_it) (AsyncEngine_Start c2)))"

text \<open>
  \<^verbatim>\<open>SSFClient::Stop\<close> (lines 74-90). The results of \<^verbatim>\<open>shutdown\<close> and \<^verbatim>\<open>close\<close>
  are written to the local \<^verbatim>\<open>close_ec\<close>, which is never read.
\<close>

definition Stop :: "error_code \<Rightarrow> error_code \<Rightarrow> SSFClient \<Rightarrow> SSFClient" where
  "Stop shutdown_ec close_ec c =
     (if \<not> IsStarted c then c
      else
        let c1 = emit DemuxClose c;
            c2 = (case client_p_socket c1 of
                    None \<Rightarrow> c1
                  | Some s \<Rightarrow> emit SocketClose (emit SocketShutdown c1));
            c3 = AsyncEngine_Stop c2
        in emit SocketReset (c3\<lparr>client_p_socket := None\<rparr>))"

text \<open>\<^verbatim>\<open>SSFClient::NetworkToTransport\<close> (lines 97-108), the completion of the connect.\<close>

definition NetworkToTransport :: "error_code \<Rightarrow> SSFClient \<Rightarrow> SSFClient" where
  "NetworkToTransport ec c =
     (if \<not> failed ec then emit SSFInitiate c
      else Notify NETWORK None ec c)"

text \<open>The micro services registered by \<^verbatim>\<open>DoFiberize\<close> (lines 145-167), in order.\<close>

definition supported_micro_services :: "(micro_service \<times> config_section) list" where
  "supported_micro_services =
     [(SocksServer, socks),
      (FibersToSockets, stream_forwarder),
      (SocketsToFibers, stream_listener),
      (FibersToDatagrams, datagram_forwarder),
      (DatagramsToFibers, datagram_listener),
      (FileToFiber, file_copy),
      (FiberToFile, file_copy),
      (FileEnquirer, file_copy),
      (ProcessServer, process)]"

text \<open>
  Modelled from the spec: \<^verbatim>\<open>ServiceManager::start\<close> is defined outside \<^verbatim>\<open>client.ipp\<close>.
  It reports the outcome of the instance's startup hook (spec 4.4); the outcome is an
  argument.
\<close>

definition ServiceManager_start ::
  "service_instance \<Rightarrow> error_code \<Rightarrow> SSFClient \<Rightarrow> error_code \<times> SSFClient" where
  "ServiceManager_start inst start_ec c = (start_ec, emit (ServiceManagerStart inst) c)"

text \<open>
  \<^verbatim>\<open>SSFClient::DoFiberize\<close> (lines 126-176). It dereferences \<^verbatim>\<open>p_socket\<close>; with a
  null pointer it has no defined result. The result is the error code written to the
  caller's \<^verbatim>\<open>ec\<close> and the client.
\<close>

definition DoFiberize ::
  "NetworkSocketPtr \<Rightarrow> error_code \<Rightarrow> SSFClient \<Rightarrow> (error_code \<times> SSFClient) option" where
  "DoFiberize p_socket admin_ec c =
     (case p_socket of
        None \<Rightarrow> None
      | Some s \<Rightarrow>
          let c1 = fold emit
                     [RegisterToCommandFactory CreateServiceRequest,
                      RegisterToCommandFactory StopServiceRequest,
                      RegisterToCommandFactory ServiceStatus] c;
              c2 = emit Fiberize c1;
              c3 = emit MakeServiceManager c2;
              c4 = emit CreateServiceFactory c3;
              c5 = fold (\<lambda>(s, cfg). emit (RegisterToServiceFactory s cfg))
                     supported_micro_services c4;
              c6 = emit CreateAdmin c5;
              c7 = emit AdminSetClient c6
          in Some (ServiceManager_start Admin admin_ec c7))"

text \<open>
  \<^verbatim>\<open>SSFClient::DoSSFStart\<close> (lines 110-124), the completion of the handshake. The
  second notification is given \<^verbatim>\<open>ec\<close>; \<^verbatim>\<open>ec2\<close> is not read.
\<close>

definition DoSSFStart ::
  "NetworkSocketPtr \<Rightarrow> error_code \<Rightarrow> error_code \<Rightarrow> SSFClient \<Rightarrow> SSFClient option" where
  "DoSSFStart p_socket admin_ec ec c =
     (let c1 = Notify NETWORK None ec c
      in if \<not> failed ec
         then (case DoFiberize p_socket admin_ec c1 of
                 None \<Rightarrow> None
               | Some (ec2, c2) \<Rightarrow> Some (Notify TRANSPORT None ec c2))
         else Some c1)"

text \<open>
  Modelled from the spec: \<^verbatim>\<open>ServiceFactory::Destroy\<close> is defined in
  \<^verbatim>\<open>core/factories/service_factory.h\<close>, outside \<^verbatim>\<open>client.ipp\<close>. It stops every
  tracked service instance (spec 4.3).
\<close>

definition Destroy :: "ServiceFactory \<Rightarrow> SSFClient \<Rightarrow> SSFClient" where
  "Destroy f c = fold emit (FactoryDestroy # map ServiceStop (running f)) c"

text \<open>
  \<^verbatim>\<open>SSFClient::OnDemuxClose\<close> (lines 178-187). The factory that
  \<^verbatim>\<open>ServiceFactoryManager::GetServiceFactory\<close> finds for the demultiplexer is an argument.
\<close>

definition OnDemuxClose :: "ServiceFactory option \<Rightarrow> SSFClient \<Rightarrow> SSFClient" where
  "OnDemuxClose p_service_factory c =
     (let c1 = emit GetServiceFactory c;
          c2 = (case p_service_factory of
                  None \<Rightarrow> c1
                | Some f \<Rightarrow> Destroy f c1)
      in Notify CLOSE None error_code_default c2)"

subsection \<open>Sessions and observations\<close>

text \<open>
  Modelled from the spec: the transport policy \<^verbatim>\<open>T\<close> (the base class with
  \<^verbatim>\<open>DoSSFInitiate\<close>) and the socket's \<^verbatim>\<open>async_connect\<close> are outside
  \<^verbatim>\<open>client.ipp\<close>. Following spec 4.1, a started connect completes with a code
  given to \<^verbatim>\<open>NetworkToTransport\<close>, and a started handshake completes with a code
  given, with the client's socket, to \<^verbatim>\<open>DoSSFStart\<close>. A run that is rejected, or
  whose resolution fails, starts no connect.
\<close>

definition session ::
  "(NetworkQuery \<Rightarrow> error_code \<times> endpoint) \<Rightarrow> NetworkQuery \<Rightarrow> error_code \<Rightarrow> error_code
     \<Rightarrow> error_code \<Rightarrow> SSFClient \<Rightarrow> SSFClient option" where
  "session resolve query connect_ec handshake_ec admin_ec c =
     (if IsStarted c \<or> failed (fst (resolve query))
      then Some (snd (Run resolve query c))
      else
        let c1 = snd (Run resolve query c);
            c2 = NetworkToTransport connect_ec c1
        in if failed connect_ec then Some c2
           else DoSSFStart (client_p_socket c2) admin_ec handshake_ec c2)"

text \<open>
  The states a client can be in: the constructed client, and every state a member
  function or a step of the scheduler leaves, whatever the outside answers.
\<close>

inductive reachable :: "SSFClient \<Rightarrow> bool" where
  constructed: "reachable (SSFClient_init user_services callback)"
| run: "reachable c \<Longrightarrow> reachable (snd (Run resolve query c))"
| stop: "reachable c \<Longrightarrow> reachable (Stop shutdown_ec close_ec c)"
| connect_done: "reachable c \<Longrightarrow> reachable (NetworkToTransport ec c)"
| handshake_done:
    "reachable c \<Longrightarrow> DoSSFStart p_socket admin_ec ec c = Some c' \<Longrightarrow> reachable c'"
| demux_closed: "reachable c \<Longrightarrow> reachable (OnDemuxClose p_service_factory c)"
| scheduled: "reachable c \<Longrightarrow> reachable (io_poll_one c)"

text \<open>The actions a step from \<open>c\<close> to \<open>c'\<close> added to the trace.\<close>

definition emitted :: "SSFClient \<Rightarrow> SSFClient \<Rightarrow> action list" where
  "emitted c c' = drop (length (trace c)) (trace c')"

text \<open>The handlers posted, the handlers invoked and the services registered, in order.\<close>

fun posts :: "action list \<Rightarrow> handler list" where
  "posts [] = []"
| "posts (Post h # as) = h # posts as"
| "posts (a # as) = posts as"

fun invocations :: "action list \<Rightarrow> handler list" where
  "invocations [] = []"
| "invocations (Invoke h # as) = h # invocations as"
| "invocations (a # as) = invocations as"

fun registrations :: "action list \<Rightarrow> micro_service list" where
  "registrations [] = []"
| "registrations (RegisterToServiceFactory s cfg # as) = s # registrations as"
| "registrations (a # as) = registrations as"

fun handler_type :: "handler \<Rightarrow> initialisation_type" where
  "handler_type (BoundCallback cb t p ec) = t"

section \<open>Basic facts\<close>

lemma fold_emit: "fold emit as c = c\<lparr>trace := trace c @ as\<rparr>"
  by (induction as arbitrary: c) (simp_all add: emit_def)

lemma posts_append: "posts (xs @ ys) = posts xs @ posts ys"
  by (induction xs rule: posts.induct) simp_all

lemma invocations_append: "invocations (xs @ ys) = invocations xs @ invocations ys"
  by (induction xs rule: invocations.induct) simp_all

lemma Notify_fields:
  "engine_started (Notify t p ec c) = engine_started c"
  "client_p_socket (Notify t p ec c) = client_p_socket c"
  "client_callback (Notify t p ec c) = client_callback c"
  by (simp_all add: Notify_def io_post_def emit_def split: option.splits)

lemma DoFiberize_None: "DoFiberize None admin_ec c = None"
  by (simp add: DoFiberize_def)

lemma DoFiberize_Some:
  "DoFiberize (Some s) admin_ec c =
     Some (admin_ec,
       c\<lparr>trace := trace c @
         [RegisterToCommandFactory CreateServiceRequest,
          RegisterToCommandFactory StopServiceRequest,
          RegisterToCommandFactory ServiceStatus,
          Fiberize, MakeServiceManager, CreateServiceFactory,
          RegisterToServiceFactory SocksServer socks,
          RegisterToServiceFactory FibersToSockets stream_forwarder,
          RegisterToServiceFactory SocketsToFibers stream_listener,
          RegisterToServiceFactory FibersToDatagrams datagram_forwarder,
          RegisterToServiceFactory DatagramsToFibers datagram_listener,
          RegisterToServiceFactory FileToFiber file_copy,
          RegisterToServiceFactory FiberToFile file_copy,
          RegisterToServiceFactory FileEnquirer file_copy,
          RegisterToServiceFactory ProcessServer process,
          CreateAdmin, AdminSetClient, ServiceManagerStart Admin]\<rparr>)"
  by (simp add: DoFiberize_def ServiceManager_start_def supported_micro_services_def emit_def)

lemma DoFiberize_fields:
  "DoFiberize p admin_ec c = Some (ec2, c') \<Longrightarrow>
     engine_started c' = engine_started c \<and> client_p_socket c' = client_p_socket c
     \<and> client_callback c' = client_callback c \<and> io_queue c' = io_queue c"
  by (cases p) (auto simp: DoFiberize_None DoFiberize_Some)

lemma emitted_append: "emitted c (c'\<lparr>trace := trace c @ as\<rparr>) = as"
  by (simp add: emitted_def)

lemma posts_ServiceStop: "posts (map ServiceStop xs) = []"
  by (induction xs) simp_all

lemma invocations_ServiceStop: "invocations (map ServiceStop xs) = []"
  by (induction xs) simp_all

text \<open>
  A started engine has a socket: \<^verbatim>\<open>Run\<close> makes the socket before it starts the engine,
  and \<^verbatim>\<open>Stop\<close> halts the engine before it releases the socket.
\<close>

lemma reachable_socket: "reachable c \<Longrightarrow> IsStarted c \<Longrightarrow> client_p_socket c \<noteq> None"
proof (induction rule: reachable.induct)
  case (constructed user_services callback)
  then show ?case by (simp add: IsStarted_def SSFClient_init_def)
next
  case (run c resolve query)
  then show ?case
    by (auto simp: Run_def IsStarted_def Let_def Notify_fields AsyncEngine_Start_def emit_def
        split: if_splits)
next
  case (stop c shutdown_ec close_ec)
  then show ?case
    by (auto simp: Stop_def IsStarted_def Let_def AsyncEngine_Stop_def emit_def
        split: if_splits option.splits)
next
  case (connect_done c ec)
  then show ?case
    by (auto simp: NetworkToTransport_def IsStarted_def Notify_fields emit_def split: if_splits)
next
  case (handshake_done c p_socket admin_ec ec c')
  then show ?case
    by (auto simp: DoSSFStart_def IsStarted_def Let_def Notify_fields
        dest: DoFiberize_fields split: if_splits option.splits)
next
  case (demux_closed c p_service_factory)
  then show ?case
    by (auto simp: OnDemuxClose_def IsStarted_def Let_def Notify_fields Destroy_def fold_emit
        emit_def split: option.splits)
next
  case (scheduled c)
  then show ?case
    by (auto simp: io_poll_one_def IsStarted_def emit_def split: list.splits)
qed

section \<open>Stop\<close>

text \<open>
  C3. Stop is idempotent. In every state a client can reach, a stop with the engine
  started closes the demultiplexer, shuts down and closes the socket, halts the engine
  and releases the socket, in this order, whatever codes the socket's shutdown and close
  report; a stop with the engine not started changes nothing; so a second stop changes
  nothing after the first.
\<close>

theorem Stop_idempotent:
  assumes "reachable c"
  shows "(IsStarted c \<longrightarrow>
            Stop shutdown_ec close_ec c =
              c\<lparr>engine_started := False, client_p_socket := None,
                trace := trace c @
                  [DemuxClose, SocketShutdown, SocketClose, EngineStop, SocketReset]\<rparr>)
         \<and> (\<not> IsStarted c \<longrightarrow> Stop shutdown_ec close_ec c = c)
         \<and> \<not> IsStarted (Stop shutdown_ec close_ec c)
         \<and> Stop shutdown_ec' close_ec' (Stop shutdown_ec close_ec c) = Stop shutdown_ec close_ec c
         \<and> Stop shutdown_ec' close_ec' c = Stop shutdown_ec close_ec c"
  using reachable_socket[OF assms]
  by (auto simp: Stop_def IsStarted_def Let_def AsyncEngine_Stop_def emit_def)

theorem Stop_idempotent_witness:
  "reachable (snd (Run (\<lambda>q. (error_code_default, 0)) [] (SSFClient_init [] None)))
   \<and> IsStarted (snd (Run (\<lambda>q. (error_code_default, 0)) [] (SSFClient_init [] None)))
   \<and> Stop \<lparr>ec_value = other_error 1, ec_category = system_category\<rparr> error_code_default
       (snd (Run (\<lambda>q. (error_code_default, 0)) [] (SSFClient_init [] None))) =
     \<lparr>engine_started = False, io_queue = [], client_p_socket = None,
      client_user_services = [], client_callback = None,
      trace = [MakeSocket, Resolve [], EngineStart, AsyncConnect 0,
               DemuxClose, SocketShutdown, SocketClose, EngineStop, SocketReset]\<rparr>
   \<and> Stop error_code_default error_code_default
       (Stop \<lparr>ec_value = other_error 1, ec_category = system_category\<rparr> error_code_default
         (snd (Run (\<lambda>q. (error_code_default, 0)) [] (SSFClient_init [] None)))) =
     \<lparr>engine_started = False, io_queue = [], client_p_socket = None,
      client_user_services = [], client_callback = None,
      trace = [MakeSocket, Resolve [], EngineStart, AsyncConnect 0,
               DemuxClose, SocketShutdown, SocketClose, EngineStop, SocketReset]\<rparr>"
  using Stop_idempotent[OF reachable.run[OF reachable.constructed],
      of "\<lambda>q. (error_code_default, 0)" "[]" "[]" None
        "\<lparr>ec_value = other_error 1, ec_category = system_category\<rparr>" error_code_default
        error_code_default error_code_default]
    reachable.run[OF reachable.constructed,
      of "\<lambda>q. (error_code_default, 0)" "[]" "[]" None]
  by (simp add: Run_def Stop_def IsStarted_def SSFClient_init_def Let_def failed_def
      error_code_default_def AsyncEngine_Start_def AsyncEngine_Stop_def emit_def)

section \<open>Run\<close>

text \<open>
  C5. A run on a client whose engine is started fails at once: the caller's error code
  is device-or-resource-busy of the SSF category, and the client is unchanged, so no
  socket is made, nothing is resolved and no connect is started.
\<close>

theorem Run_already_running:
  assumes "IsStarted c"
  shows "Run resolve query c =
           (\<lparr>ec_value = device_or_resource_busy, ec_category = ssf_category\<rparr>, c)
         \<and> failed (fst (Run resolve query c))
         \<and> emitted c (snd (Run resolve query c)) = []"
  using assms by (simp add: Run_def failed_def emitted_def)

theorem Run_already_running_witness:
  "IsStarted (SSFClient_init [] None\<lparr>engine_started := True,
       client_p_socket := Some NetworkSocket\<rparr>)
   \<and> Run (\<lambda>q. (error_code_default, 0)) []
       (SSFClient_init [] None\<lparr>engine_started := True, client_p_socket := Some NetworkSocket\<rparr>) =
     (\<lparr>ec_value = device_or_resource_busy, ec_category = ssf_category\<rparr>,
      SSFClient_init [] None\<lparr>engine_started := True, client_p_socket := Some NetworkSocket\<rparr>)"
  using Run_already_running[of
      "SSFClient_init [] None\<lparr>engine_started := True, client_p_socket := Some NetworkSocket\<rparr>"
      "\<lambda>q. (error_code_default, 0)" "[]"]
  by (simp add: IsStarted_def SSFClient_init_def)




section \<open>Notify\<close>

text \<open>
  C9. With an empty callback every call of Notify leaves the client as it is, for every
  kind, user service and error code: nothing is posted.
\<close>

theorem Notify_empty_callback:
  "client_callback c = None \<Longrightarrow> Notify type p_user_service ec c = c"
  by (simp add: Notify_def)

theorem Notify_empty_callback_witness:
  "client_callback (SSFClient_init [] None) = None
   \<and> Notify CLOSE None \<lparr>ec_value = other_error 2, ec_category = system_category\<rparr>
       (SSFClient_init [] None) =
     \<lparr>engine_started = False, io_queue = [], client_p_socket = None,
      client_user_services = [], client_callback = None, trace = []\<rparr>"
  using Notify_empty_callback[of "SSFClient_init [] None" CLOSE None
      "\<lparr>ec_value = other_error 2, ec_category = system_category\<rparr>"]
  by (simp add: SSFClient_init_def)

text \<open>
  C7. No member function invokes the callback: whatever a member function adds to the
  trace holds no invocation. With a callback, Notify queues the bound callback on the io
  service and returns; the invocation is the scheduler's, when it takes the handler
  from the queue.
\<close>

theorem notifications_are_posted:
  "invocations (emitted c (Notify type p_user_service ec c)) = []
   \<and> invocations (emitted c (snd (Run resolve query c))) = []
   \<and> invocations (emitted c (Stop shutdown_ec close_ec c)) = []
   \<and> invocations (emitted c (NetworkToTransport ec c)) = []
   \<and> (\<forall>c'. DoSSFStart p_socket admin_ec ec c = Some c' \<longrightarrow> invocations (emitted c c') = [])
   \<and> invocations (emitted c (OnDemuxClose p_service_factory c)) = []
   \<and> (\<forall>cb. client_callback c = Some cb \<longrightarrow>
        Notify type p_user_service ec c =
          c\<lparr>io_queue := io_queue c @ [BoundCallback cb type p_user_service ec],
            trace := trace c @ [Post (BoundCallback cb type p_user_service ec)]\<rparr>)
   \<and> (\<forall>cb. client_callback c = Some cb \<and> io_queue c = [] \<longrightarrow>
        emitted c (io_poll_one (Notify type p_user_service ec c)) =
          [Post (BoundCallback cb type p_user_service ec),
           Invoke (BoundCallback cb type p_user_service ec)])"
  by (cases p_socket)
   (auto simp: OnDemuxClose_def Destroy_def fold_emit Notify_def io_post_def emit_def
      emitted_def invocations_ServiceStop invocations_append Run_def NetworkToTransport_def
      DoSSFStart_def DoFiberize_Some DoFiberize_None Stop_def AsyncEngine_Stop_def
      AsyncEngine_Start_def io_poll_one_def Let_def split: option.splits)

theorem notifications_are_posted_witness:
  "client_callback (SSFClient_init [] (Some (ClientCallback 2))) = Some (ClientCallback 2)
   \<and> io_queue (SSFClient_init [] (Some (ClientCallback 2))) = []
   \<and> emitted (SSFClient_init [] (Some (ClientCallback 2)))
       (io_poll_one (Notify TRANSPORT None error_code_default
          (SSFClient_init [] (Some (ClientCallback 2))))) =
     [Post (BoundCallback (ClientCallback 2) TRANSPORT None error_code_default),
      Invoke (BoundCallback (ClientCallback 2) TRANSPORT None error_code_default)]
   \<and> map_option (\<lambda>c'. invocations (emitted (SSFClient_init [] (Some (ClientCallback 2))) c'))
       (DoSSFStart (Some NetworkSocket) error_code_default error_code_default
          (SSFClient_init [] (Some (ClientCallback 2)))) = Some []"
  using notifications_are_posted[of "SSFClient_init [] (Some (ClientCallback 2))"
      TRANSPORT None error_code_default "\<lambda>q. (error_code_default, 0)" "[]"
      error_code_default error_code_default "Some NetworkSocket" error_code_default None]
  by (simp add: SSFClient_init_def DoSSFStart_def DoFiberize_Some Notify_def io_post_def
      emit_def emitted_def Let_def failed_def error_code_default_def)

section \<open>Fiberization\<close>

text \<open>
  C8. With a socket to hand over, DoFiberize always returns, with the outcome of the
  Admin start as its code. It changes nothing but the trace, to which it adds: the
  creation of the service factory, then the registrations of the supported micro
  services in the order of the source, then the creation and the start of the Admin
  service. Every micro service is registered exactly once.
\<close>

theorem DoFiberize_registers_each_service_once:
  "\<exists>c'. DoFiberize (Some s) admin_ec c = Some (admin_ec, c')
      \<and> c' = c\<lparr>trace := trace c @ emitted c c'\<rparr>
      \<and> emitted c c' =
           [RegisterToCommandFactory CreateServiceRequest,
            RegisterToCommandFactory StopServiceRequest,
            RegisterToCommandFactory ServiceStatus,
            Fiberize, MakeServiceManager, CreateServiceFactory]
           @ map (\<lambda>(s, cfg). RegisterToServiceFactory s cfg) supported_micro_services
           @ [CreateAdmin, AdminSetClient, ServiceManagerStart Admin]
      \<and> (\<forall>svc. count_list (registrations (emitted c c')) svc = 1)"
proof -
  let ?as = "[RegisterToCommandFactory CreateServiceRequest,
            RegisterToCommandFactory StopServiceRequest,
            RegisterToCommandFactory ServiceStatus,
            Fiberize, MakeServiceManager, CreateServiceFactory]
           @ map (\<lambda>(s, cfg). RegisterToServiceFactory s cfg) supported_micro_services
           @ [CreateAdmin, AdminSetClient, ServiceManagerStart Admin]"
  let ?c' = "c\<lparr>trace := trace c @ ?as\<rparr>"
  have run: "DoFiberize (Some s) admin_ec c = Some (admin_ec, ?c')"
    by (simp add: DoFiberize_Some supported_micro_services_def)
  have em: "emitted c ?c' = ?as"
    by (rule emitted_append)
  have once: "count_list (registrations ?as) svc = 1" for svc
    by (cases svc) (simp_all add: supported_micro_services_def)
  have same: "?c' = c\<lparr>trace := trace c @ emitted c ?c'\<rparr>"
    unfolding em by simp
  from run em once same show ?thesis
    by (intro exI[of _ ?c']) (simp only: em, simp)
qed

theorem DoFiberize_registers_each_service_once_witness:
  "map_option (\<lambda>(ec2, c'). (ec2, registrations (emitted (SSFClient_init [] None) c'),
       count_list (registrations (emitted (SSFClient_init [] None) c')) FileEnquirer))
     (DoFiberize (Some NetworkSocket) error_code_default (SSFClient_init [] None)) =
   Some (error_code_default,
     [SocksServer, FibersToSockets, SocketsToFibers, FibersToDatagrams, DatagramsToFibers,
      FileToFiber, FiberToFile, FileEnquirer, ProcessServer], 1)"
  using DoFiberize_registers_each_service_once[of NetworkSocket error_code_default
      "SSFClient_init [] None"]
  by (simp add: DoFiberize_Some emitted_def SSFClient_init_def)

section \<open>The end of the handshake\<close>




text \<open>
  C2 (as amended). In a run from a client whose engine is not started, in which
  resolution and connect succeed and the handshake fails, and a callback was supplied:
  exactly one notification is posted, of kind Network with the handshake's code; no
  Transport notification is posted and the socket is not fiberized. The client closes
  nothing: the engine stays started and the socket is kept.
\<close>

theorem session_handshake_failure:
  assumes "\<not> IsStarted c" "\<not> failed (fst (resolve query))" "\<not> failed connect_ec"
    "failed handshake_ec" "client_callback c = Some cb"
  shows "session resolve query connect_ec handshake_ec admin_ec c =
           Some (c\<lparr>engine_started := True, client_p_socket := Some NetworkSocket,
             io_queue := io_queue c @ [BoundCallback cb NETWORK None handshake_ec],
             trace := trace c @ [MakeSocket, Resolve query, EngineStart,
               AsyncConnect (snd (resolve query)), SSFInitiate,
               Post (BoundCallback cb NETWORK None handshake_ec)]\<rparr>)"
  using assms
  by (simp add: session_def Run_def NetworkToTransport_def DoSSFStart_def IsStarted_def Let_def
      Notify_def io_post_def emit_def AsyncEngine_Start_def)

theorem session_handshake_failure_witness:
  "\<not> IsStarted (SSFClient_init [] (Some (ClientCallback 0)))
   \<and> \<not> failed error_code_default
   \<and> failed \<lparr>ec_value = other_error 4, ec_category = ssf_category\<rparr>
   \<and> session (\<lambda>q. (error_code_default, 9)) [] error_code_default
       \<lparr>ec_value = other_error 4, ec_category = ssf_category\<rparr> error_code_default
       (SSFClient_init [] (Some (ClientCallback 0))) =
     Some \<lparr>engine_started = True,
       io_queue = [BoundCallback (ClientCallback 0) NETWORK None
         \<lparr>ec_value = other_error 4, ec_category = ssf_category\<rparr>],
       client_p_socket = Some NetworkSocket, client_user_services = [],
       client_callback = Some (ClientCallback 0),
       trace = [MakeSocket, Resolve [], EngineStart, AsyncConnect 9, SSFInitiate,
         Post (BoundCallback (ClientCallback 0) NETWORK None
           \<lparr>ec_value = other_error 4, ec_category = ssf_category\<rparr>)]\<rparr>"
  using session_handshake_failure[of "SSFClient_init [] (Some (ClientCallback 0))"
      "\<lambda>q. (error_code_default, 9)" "[]" error_code_default
      "\<lparr>ec_value = other_error 4, ec_category = ssf_category\<rparr>" "ClientCallback 0"
      error_code_default]
  by (simp add: SSFClient_init_def IsStarted_def failed_def error_code_default_def)

text \<open>
  The claim as stated fails: with an empty callback the failed handshake posts no
  notification, and with or without a callback the engine is still started and the
  socket still held after the failure; no close of any kind is in the trace.
\<close>

theorem session_handshake_failure_counterexample:
  "session (\<lambda>q. (error_code_default, 9)) [] error_code_default
       \<lparr>ec_value = other_error 4, ec_category = ssf_category\<rparr> error_code_default
       (SSFClient_init [] None) =
     Some \<lparr>engine_started = True, io_queue = [],
       client_p_socket = Some NetworkSocket, client_user_services = [],
       client_callback = None,
       trace = [MakeSocket, Resolve [], EngineStart, AsyncConnect 9, SSFInitiate]\<rparr>"
  by (simp add: session_def Run_def NetworkToTransport_def DoSSFStart_def IsStarted_def Let_def
      Notify_def emit_def AsyncEngine_Start_def SSFClient_init_def failed_def
      error_code_default_def)

section \<open>The close of the demultiplexer\<close>




text \<open>
  C4 (as amended). A Close notification is posted by the handler of the demultiplexer's
  close alone: Run, Stop, NetworkToTransport and DoSSFStart post none on any branch, and
  so does every run up to the end of the handshake. Each close the demultiplexer
  signals posts exactly one notification when a callback was supplied, and none
  otherwise; it is of kind Close and always carries the default (success) error code.
  A failed resolution, a failed connect and a failed handshake each post, when a
  callback was supplied, exactly one notification, of kind Network with the failure,
  and none otherwise.
\<close>

theorem Close_notification_only_on_demux_close:
  "posts (emitted c (OnDemuxClose p_service_factory c)) =
     (case client_callback c of
        None \<Rightarrow> []
      | Some cb \<Rightarrow> [BoundCallback cb CLOSE None error_code_default])
   \<and> [h \<leftarrow> posts (emitted c (snd (Run resolve query c))). handler_type h = CLOSE] = []
   \<and> [h \<leftarrow> posts (emitted c (Stop shutdown_ec close_ec c)). handler_type h = CLOSE] = []
   \<and> [h \<leftarrow> posts (emitted c (NetworkToTransport ec c)). handler_type h = CLOSE] = []
   \<and> (\<exists>c'. DoSSFStart (Some s) admin_ec ec c = Some c'
         \<and> [h \<leftarrow> posts (emitted c c'). handler_type h = CLOSE] = [])
   \<and> (\<forall>c'. DoSSFStart p_socket admin_ec ec c = Some c' \<longrightarrow>
         [h \<leftarrow> posts (emitted c c'). handler_type h = CLOSE] = [])
   \<and> (\<forall>c'. session resolve query connect_ec ec admin_ec c = Some c' \<longrightarrow>
         [h \<leftarrow> posts (emitted c c'). handler_type h = CLOSE] = [])
   \<and> (\<not> IsStarted c \<and> failed (fst (resolve query)) \<longrightarrow>
         posts (emitted c (snd (Run resolve query c))) =
           (case client_callback c of
              None \<Rightarrow> []
            | Some cb \<Rightarrow> [BoundCallback cb NETWORK None (fst (resolve query))]))
   \<and> (failed ec \<longrightarrow>
         posts (emitted c (NetworkToTransport ec c)) =
           (case client_callback c of
              None \<Rightarrow> []
            | Some cb \<Rightarrow> [BoundCallback cb NETWORK None ec]))
   \<and> (failed ec \<longrightarrow>
         (\<exists>c'. DoSSFStart p_socket admin_ec ec c = Some c'
            \<and> posts (emitted c c') =
              (case client_callback c of
                 None \<Rightarrow> []
               | Some cb \<Rightarrow> [BoundCallback cb NETWORK None ec])))"
proof -
  have a: "posts (emitted c (OnDemuxClose p_service_factory c)) =
     (case client_callback c of
        None \<Rightarrow> []
      | Some cb \<Rightarrow> [BoundCallback cb CLOSE None error_code_default])"
    by (cases p_service_factory; cases "client_callback c")
      (simp_all add: OnDemuxClose_def Destroy_def fold_emit Notify_def io_post_def emit_def
        emitted_def posts_ServiceStop posts_append Let_def)
  have b: "[h \<leftarrow> posts (emitted c (snd (Run resolve query c))). handler_type h = CLOSE] = []"
    by (simp add: Run_def Notify_def io_post_def emit_def emitted_def Let_def
        AsyncEngine_Start_def split: option.splits)
  have c: "[h \<leftarrow> posts (emitted c (Stop shutdown_ec close_ec c)). handler_type h = CLOSE] = []"
    by (simp add: Stop_def AsyncEngine_Stop_def emit_def emitted_def Let_def
        split: option.splits)
  have d: "[h \<leftarrow> posts (emitted c (NetworkToTransport ec c)). handler_type h = CLOSE] = []"
    by (simp add: NetworkToTransport_def Notify_def io_post_def emit_def emitted_def
        split: option.splits)
  have e: "\<exists>c'. DoSSFStart (Some s) admin_ec ec c = Some c'
         \<and> [h \<leftarrow> posts (emitted c c'). handler_type h = CLOSE] = []"
    by (simp add: DoSSFStart_def DoFiberize_Some Notify_def io_post_def emit_def emitted_def
        Let_def split: option.splits)
  have f: "[h \<leftarrow> posts (emitted c c'). handler_type h = CLOSE] = []"
    if "DoSSFStart p_socket admin_ec ec c = Some c'" for c' p_socket
    using that
    by (cases p_socket)
      (auto simp: DoSSFStart_def DoFiberize_Some DoFiberize_None Notify_def io_post_def
        emit_def emitted_def Let_def split: option.splits if_splits)
  have g: "[h \<leftarrow> posts (emitted c c'). handler_type h = CLOSE] = []"
    if "session resolve query connect_ec ec admin_ec c = Some c'" for c'
    using that
    by (auto simp: session_def Run_def NetworkToTransport_def DoSSFStart_def DoFiberize_Some
        IsStarted_def AsyncEngine_Start_def Notify_def io_post_def emit_def emitted_def Let_def
        split: option.splits if_splits)
  have h: "posts (emitted c (snd (Run resolve query c))) =
           (case client_callback c of
              None \<Rightarrow> []
            | Some cb \<Rightarrow> [BoundCallback cb NETWORK None (fst (resolve query))])"
    if "\<not> IsStarted c \<and> failed (fst (resolve query))"
    using that
    by (simp add: Run_def Notify_def io_post_def emit_def emitted_def Let_def
        split: option.splits)
  have i: "posts (emitted c (NetworkToTransport ec c)) =
           (case client_callback c of
              None \<Rightarrow> []
            | Some cb \<Rightarrow> [BoundCallback cb NETWORK None ec])"
    if "failed ec"
    using that
    by (simp add: NetworkToTransport_def Notify_def io_post_def emit_def emitted_def
        split: option.splits)
  have j: "\<exists>c'. DoSSFStart p_socket admin_ec ec c = Some c'
            \<and> posts (emitted c c') =
              (case client_callback c of
                 None \<Rightarrow> []
               | Some cb \<Rightarrow> [BoundCallback cb NETWORK None ec])"
    if "failed ec"
    using that
    by (simp add: DoSSFStart_def Notify_def io_post_def emit_def emitted_def Let_def
        split: option.splits)
  from a b c d e f g h i j show ?thesis by blast
qed

theorem Close_notification_only_on_demux_close_witness:
  "failed \<lparr>ec_value = other_error 7, ec_category = ssf_category\<rparr>
   \<and> \<not> IsStarted (SSFClient_init [] (Some (ClientCallback 1)))
   \<and> posts (emitted (SSFClient_init [] (Some (ClientCallback 1)))
        (OnDemuxClose (Some \<lparr>running = [Admin]\<rparr>) (SSFClient_init [] (Some (ClientCallback 1)))))
      = [BoundCallback (ClientCallback 1) CLOSE None
          \<lparr>ec_value = no_error, ec_category = system_category\<rparr>]
   \<and> posts (emitted (SSFClient_init [] (Some (ClientCallback 1)))
        (NetworkToTransport \<lparr>ec_value = other_error 7, ec_category = ssf_category\<rparr>
          (SSFClient_init [] (Some (ClientCallback 1)))))
      = [BoundCallback (ClientCallback 1) NETWORK None
          \<lparr>ec_value = other_error 7, ec_category = ssf_category\<rparr>]
   \<and> map_option (\<lambda>c'. posts (emitted (SSFClient_init [] (Some (ClientCallback 1))) c'))
        (DoSSFStart (Some NetworkSocket) error_code_default
          \<lparr>ec_value = other_error 7, ec_category = ssf_category\<rparr>
          (SSFClient_init [] (Some (ClientCallback 1))))
      = Some [BoundCallback (ClientCallback 1) NETWORK None
          \<lparr>ec_value = other_error 7, ec_category = ssf_category\<rparr>]
   \<and> posts (emitted (SSFClient_init [] (Some (ClientCallback 1)))
        (snd (Run (\<lambda>q. (\<lparr>ec_value = other_error 7, ec_category = ssf_category\<rparr>, 0)) []
          (SSFClient_init [] (Some (ClientCallback 1))))))
      = [BoundCallback (ClientCallback 1) NETWORK None
          \<lparr>ec_value = other_error 7, ec_category = ssf_category\<rparr>]
   \<and> map_option (\<lambda>c'. [h \<leftarrow> posts (emitted (SSFClient_init [] (Some (ClientCallback 1))) c').
          handler_type h = CLOSE])
        (session (\<lambda>q. (error_code_default, 0)) [] error_code_default error_code_default
          error_code_default (SSFClient_init [] (Some (ClientCallback 1))))
      = Some []"
  using Close_notification_only_on_demux_close[where
      c = "SSFClient_init [] (Some (ClientCallback 1))"
      and p_service_factory = "Some \<lparr>running = [Admin]\<rparr>"
      and resolve = "\<lambda>q. (\<lparr>ec_value = other_error 7, ec_category = ssf_category\<rparr>, 0)"
      and query = "[]"
      and ec = "\<lparr>ec_value = other_error 7, ec_category = ssf_category\<rparr>"
      and p_socket = "Some NetworkSocket" and s = NetworkSocket
      and admin_ec = error_code_default and connect_ec = error_code_default
      and shutdown_ec = error_code_default and close_ec = error_code_default]
  by (simp add: SSFClient_init_def failed_def error_code_default_def session_def Run_def
      NetworkToTransport_def DoSSFStart_def DoFiberize_Some OnDemuxClose_def Destroy_def
      IsStarted_def AsyncEngine_Start_def Notify_def io_post_def emit_def emitted_def Let_def)

text \<open>
  The claim as stated fails: a session that ends with a failed handshake posts its
  Network notification and no Close notification, also when the client is stopped
  afterwards.
\<close>

theorem Close_notification_counterexample:
  "map_option (\<lambda>c'. (posts (trace c'),
       posts (trace (Stop error_code_default error_code_default c'))))
     (session (\<lambda>q. (error_code_default, 2)) [] error_code_default
       \<lparr>ec_value = other_error 7, ec_category = ssf_category\<rparr> error_code_default
       (SSFClient_init [] (Some (ClientCallback 1)))) =
   Some ([BoundCallback (ClientCallback 1) NETWORK None
            \<lparr>ec_value = other_error 7, ec_category = ssf_category\<rparr>],
         [BoundCallback (ClientCallback 1) NETWORK None
            \<lparr>ec_value = other_error 7, ec_category = ssf_category\<rparr>])"
  by (simp add: session_def Run_def NetworkToTransport_def DoSSFStart_def Stop_def
      IsStarted_def Let_def Notify_def io_post_def emit_def AsyncEngine_Start_def
      AsyncEngine_Stop_def SSFClient_init_def failed_def error_code_default_def)

end
